theory Spec2Isabelle
  imports Main "HOL-Library.Sublist"
begin

section \<open>Values, exceptions and documents\<close>

text \<open>
  The program is a FastAPI service over MongoDB (through Beanie documents). Document
  identifiers (\<open>PydanticObjectId\<close>) are modelled as natural numbers, \<open>datetime\<close> values as
  integer seconds. A collection is the list of its documents in insertion order.
\<close>

type_synonym objid = nat

text \<open>
  Python values as they occur in an open dictionary (the body of \<open>PUT /preferences\<close>) and
  in the attributes of a document that \<open>setattr\<close> may overwrite with any value.
\<close>

datatype pyval =
    VNone
  | VBool bool
  | VInt int
  | VStr string
  | VList "pyval list"
  | VOid objid
  | VTime int

text \<open>The exceptions the program raises or handles.\<close>

datatype exn =
    HTTPException nat string
  | UserAlreadyExists
  | OSError string
  | ClientError string
  | TypeError string
  | AttributeError string
  | Exception string


text \<open>models.py: \<open>UserDB\<close> (the fields of \<open>BeanieBaseUser\<close> and the ones added here).\<close>

record user_db =
  uid :: objid
  email :: string
  hashed_password :: string
  is_active :: bool
  is_superuser :: bool
  is_verified :: bool
  full_name :: "string option"
  google_id :: "string option"
  avatar_url :: "string option"
  role :: string
  created_at :: int
  updated_at :: int

text \<open>models.py: \<open>UserSession\<close>.\<close>

record user_session =
  s_id :: objid
  s_user_id :: objid
  session_name :: string
  session_type :: string
  status :: string
  s_created_at :: int
  s_updated_at :: int
  metadata :: "(string \<times> pyval) list option"

text \<open>models.py: \<open>MediaFile\<close>.\<close>

record media_file =
  m_id :: objid
  m_user_id :: objid
  m_session_id :: "objid option"
  file_type :: string
  file_path :: string
  file_size :: "nat option"
  duration :: "nat option"
  mime_type :: "string option"
  m_created_at :: int
  processing_status :: string
  ai_analysis :: "(string \<times> pyval) list option"

text \<open>models.py: \<open>LLMConversation\<close>.\<close>

record llm_conversation =
  c_id :: objid
  c_user_id :: objid
  c_session_id :: "objid option"
  conversation_type :: string
  user_message :: "string option"
  llm_response :: "string option"
  llm_model :: "string option"
  context_data :: "(string \<times> pyval) list option"
  response_metadata :: "(string \<times> pyval) list option"
  c_created_at :: int

text \<open>
  models.py: \<open>UserPreferences\<close>. \<open>update_user_preferences\<close> assigns request values to
  the attributes of this document with \<open>setattr\<close>, and the model is not configured to
  validate assignments, so every attribute holds a Python value.
\<close>

record user_preferences =
  p_id :: pyval
  p_user_id :: pyval
  preferred_duration :: pyval
  difficulty_level :: pyval
  interview_types :: pyval
  email_notifications :: pyval
  reminder_notifications :: pyval
  data_retention_days :: pyval
  allow_data_analysis :: pyval
  preferences_data :: pyval
  p_created_at :: pyval
  p_updated_at :: pyval

section \<open>The world: database, blob storage, clock\<close>

text \<open>
  The database operations whose failure the program handles (the preferences collection,
  inside \<open>try\<close>/\<open>except\<close> in auth.py) or whose failure the specification discusses
  (deleting a media record). \<open>db_faults\<close> lists the operations that currently raise,
  with the exception they raise; \<open>blob_faults\<close> lists the storage paths whose deletion
  the storage backend refuses.
\<close>

datatype db_op = PrefsFind | PrefsInsert | PrefsSave | MediaDelete

record world =
  users :: "user_db list"
  user_sessions :: "user_session list"
  media_files :: "media_file list"
  llm_conversations :: "llm_conversation list"
  user_prefs :: "user_preferences list"
  blobs :: "string list"
  clock :: int
  next_oid :: objid
  db_faults :: "(db_op \<times> exn) list"
  blob_faults :: "string list"

definition fault_of :: "db_op \<Rightarrow> world \<Rightarrow> exn option" where
  "fault_of op w = map_of (db_faults w) op"

text \<open>\<open>datetime.utcnow()\<close>.\<close>

definition utcnow :: "world \<Rightarrow> int" where
  "utcnow w = clock w"

text \<open>\<open>PydanticObjectId()\<close>: a fresh identifier.\<close>

definition new_oid :: "world \<Rightarrow> objid \<times> world" where
  "new_oid w = (next_oid w, w\<lparr>next_oid := Suc (next_oid w)\<rparr>)"

section \<open>services/user\_service.py\<close>

text \<open>
  \<open>Document.find_one(c1, c2)\<close> returns the first document satisfying all criteria, or
  \<open>None\<close>; \<open>Document.get(id)\<close> looks a document up by its identifier.
\<close>

definition UserSession_get :: "objid \<Rightarrow> world \<Rightarrow> user_session option" where
  "UserSession_get i w = find (\<lambda>s. s_id s = i) (user_sessions w)"

definition MediaFile_get :: "objid \<Rightarrow> world \<Rightarrow> media_file option" where
  "MediaFile_get i w = find (\<lambda>m. m_id m = i) (media_files w)"

definition get_session_by_id :: "objid \<Rightarrow> world \<Rightarrow> user_session option" where
  "get_session_by_id session_id w = UserSession_get session_id w"

definition user_owns_resource :: "objid \<Rightarrow> objid \<Rightarrow> string \<Rightarrow> world \<Rightarrow> bool" where
  "user_owns_resource user_id resource_id resource_type w =
     (if resource_type = ''session'' then
        find (\<lambda>s. s_id s = resource_id \<and> s_user_id s = user_id) (user_sessions w) \<noteq> None
      else if resource_type = ''media'' then
        find (\<lambda>m. m_id m = resource_id \<and> m_user_id m = user_id) (media_files w) \<noteq> None
      else if resource_type = ''conversation'' then
        find (\<lambda>c. c_id c = resource_id \<and> c_user_id c = user_id) (llm_conversations w) \<noteq> None
      else False)"

text \<open>\<open>UserSession.find(UserSession.user_id == user_id).to_list()\<close>: no sort is requested.\<close>

definition UserService_get_user_sessions :: "objid \<Rightarrow> world \<Rightarrow> user_session list" where
  "UserService_get_user_sessions user_id w =
     filter (\<lambda>s. s_user_id s = user_id) (user_sessions w)"

section \<open>services/storage\_service.py\<close>

record storage_service =
  storage_type :: string
  bucket_name :: "string option"

text \<open>
  \<open>os.remove(path)\<close>: removes the file, or raises \<open>OSError\<close> (no such file, or the
  operating system refuses). \<open>s3_client.delete_object\<close>: removes the key if present, or
  raises \<open>ClientError\<close> when the service refuses.
\<close>

definition os_remove :: "string \<Rightarrow> world \<Rightarrow> (exn + unit) \<times> world" where
  "os_remove path w =
     (if path \<in> set (blob_faults w) then (Inl (OSError ''Permission denied''), w)
      else if path \<notin> set (blobs w) then (Inl (OSError ''No such file or directory''), w)
      else (Inr (), w\<lparr>blobs := removeAll path (blobs w)\<rparr>))"

definition s3_delete_object :: "string \<Rightarrow> world \<Rightarrow> (exn + unit) \<times> world" where
  "s3_delete_object key w =
     (if key \<in> set (blob_faults w) then (Inl (ClientError ''AccessDenied''), w)
      else (Inr (), w\<lparr>blobs := removeAll key (blobs w)\<rparr>))"

fun is_OSError :: "exn \<Rightarrow> bool" where
  "is_OSError (OSError m) = True"
| "is_OSError e = False"

fun is_ClientError :: "exn \<Rightarrow> bool" where
  "is_ClientError (ClientError m) = True"
| "is_ClientError e = False"

text \<open>
  \<open>StorageService.delete_file\<close>. The result is \<open>Some True\<close>, \<open>Some False\<close>, or \<open>None\<close>
  when the storage type is neither \<open>local\<close> nor \<open>s3\<close> (the function falls off its end).
  An exception that the \<open>except\<close> clause does not name propagates.
\<close>

definition StorageService_delete_file ::
    "storage_service \<Rightarrow> string \<Rightarrow> world \<Rightarrow> (exn + bool option) \<times> world" where
  "StorageService_delete_file sto path w =
     (if storage_type sto = ''local'' then
        (case os_remove path w of
           (Inr u, w') \<Rightarrow> (Inr (Some True), w')
         | (Inl e, w') \<Rightarrow> if is_OSError e then (Inr (Some False), w') else (Inl e, w'))
      else if storage_type sto = ''s3'' then
        (case s3_delete_object path w of
           (Inr u, w') \<Rightarrow> (Inr (Some True), w')
         | (Inl e, w') \<Rightarrow> if is_ClientError e then (Inr (Some False), w') else (Inl e, w'))
      else (Inr None, w))"

definition get_file_url :: "storage_service \<Rightarrow> string \<Rightarrow> string option" where
  "get_file_url sto path =
     (if storage_type sto = ''local'' then Some (''/files/'' @ path)
      else if storage_type sto = ''s3'' then
        Some (''https://'' @ (case bucket_name sto of Some b \<Rightarrow> b | None \<Rightarrow> ''None'')
              @ ''.s3.amazonaws.com/'' @ path)
      else None)"

section \<open>main.py: resource endpoints\<close>

text \<open>
  The endpoints receive the authenticated user (\<open>current_user\<close>) from the framework.
  \<open>PydanticObjectId(str(current_user.id))\<close> is the identity on identifiers.
\<close>

definition get_session :: "objid \<Rightarrow> user_db \<Rightarrow> world \<Rightarrow> exn + user_session option" where
  "get_session session_id current_user w =
     (if \<not> user_owns_resource (uid current_user) session_id ''session'' w then
        Inl (HTTPException 404 ''Session not found'')
      else Inr (get_session_by_id session_id w))"

definition get_user_sessions :: "user_db \<Rightarrow> world \<Rightarrow> user_session list" where
  "get_user_sessions current_user w = UserService_get_user_sessions (uid current_user) w"

record file_info =
  fi_file_id :: objid
  fi_file_url :: "string option"
  fi_file_type :: string
  fi_file_size :: "nat option"
  fi_created_at :: int

definition get_file ::
    "storage_service \<Rightarrow> objid \<Rightarrow> user_db \<Rightarrow> world \<Rightarrow> exn + file_info" where
  "get_file sto file_id current_user w =
     (if \<not> user_owns_resource (uid current_user) file_id ''media'' w then
        Inl (HTTPException 404 ''File not found'')
      else
        (case MediaFile_get file_id w of
           None \<Rightarrow> Inl (AttributeError ''file_path'')
         | Some mf \<Rightarrow>
             Inr \<lparr>fi_file_id = m_id mf, fi_file_url = get_file_url sto (file_path mf),
                  fi_file_type = file_type mf, fi_file_size = file_size mf,
                  fi_created_at = m_created_at mf\<rparr>))"

text \<open>\<open>media_file.delete()\<close>: removes the document with this identifier.\<close>

fun remove_by_id :: "objid \<Rightarrow> media_file list \<Rightarrow> media_file list" where
  "remove_by_id i [] = []"
| "remove_by_id i (m # ms) = (if m_id m = i then ms else m # remove_by_id i ms)"

definition MediaFile_delete :: "media_file \<Rightarrow> world \<Rightarrow> (exn + unit) \<times> world" where
  "MediaFile_delete mf w =
     (case fault_of MediaDelete w of
        Some e \<Rightarrow> (Inl e, w)
      | None \<Rightarrow> (Inr (), w\<lparr>media_files := remove_by_id (m_id mf) (media_files w)\<rparr>))"

text \<open>
  The delete endpoint: ownership check, then the blob, then the record. The boolean that
  \<open>storage_service.delete_file\<close> returns is not looked at.
\<close>

definition delete_file ::
    "storage_service \<Rightarrow> objid \<Rightarrow> user_db \<Rightarrow> world \<Rightarrow> (exn + string) \<times> world" where
  "delete_file sto file_id current_user w =
     (if \<not> user_owns_resource (uid current_user) file_id ''media'' w then
        (Inl (HTTPException 404 ''File not found''), w)
      else
        (case MediaFile_get file_id w of
           None \<Rightarrow> (Inl (AttributeError ''file_path''), w)
         | Some mf \<Rightarrow>
             (case StorageService_delete_file sto (file_path mf) w of
                (Inl e, w1) \<Rightarrow> (Inl e, w1)
              | (Inr b, w1) \<Rightarrow>
                  (case MediaFile_delete mf w1 of
                     (Inl e, w2) \<Rightarrow> (Inl e, w2)
                   | (Inr u, w2) \<Rightarrow> (Inr ''File deleted successfully'', w2)))))"

text \<open>
  The resources of a kind as pairs (identifier, owner), to state ownership independently
  of the lookup.
\<close>

definition resource_table :: "string \<Rightarrow> world \<Rightarrow> (objid \<times> objid) list" where
  "resource_table k w =
     (if k = ''session'' then map (\<lambda>s. (s_id s, s_user_id s)) (user_sessions w)
      else if k = ''media'' then map (\<lambda>m. (m_id m, m_user_id m)) (media_files w)
      else if k = ''conversation'' then map (\<lambda>c. (c_id c, c_user_id c)) (llm_conversations w)
      else [])"

section \<open>The preferences collection\<close>

text \<open>
  Operations of the \<open>UserPreferences\<close> collection. Each raises the exception listed for
  it in \<open>db_faults\<close>, if any. \<open>find_one(UserPreferences.user_id == user_id)\<close> returns the
  first document whose \<open>user_id\<close> is this identifier.
\<close>

definition UserPreferences_find_one :: "objid \<Rightarrow> world \<Rightarrow> exn + user_preferences option" where
  "UserPreferences_find_one user_id w =
     (case fault_of PrefsFind w of
        Some e \<Rightarrow> Inl e
      | None \<Rightarrow> Inr (find (\<lambda>p. p_user_id p = VOid user_id) (user_prefs w)))"

definition UserPreferences_insert :: "user_preferences \<Rightarrow> world \<Rightarrow> (exn + unit) \<times> world" where
  "UserPreferences_insert p w =
     (case fault_of PrefsInsert w of
        Some e \<Rightarrow> (Inl e, w)
      | None \<Rightarrow> (Inr (), w\<lparr>user_prefs := user_prefs w @ [p]\<rparr>))"



text \<open>
  \<open>UserPreferences(user_id=user_id)\<close>: the defaults of models.py, a fresh identifier and
  the current time.
\<close>

definition UserPreferences_default :: "objid \<Rightarrow> world \<Rightarrow> user_preferences \<times> world" where
  "UserPreferences_default user_id w =
     (case new_oid w of
        (i, w') \<Rightarrow>
          (\<lparr>p_id = VOid i, p_user_id = VOid user_id, preferred_duration = VInt 30,
            difficulty_level = VStr ''medium'',
            interview_types = VList [VStr ''technical'', VStr ''behavioral''],
            email_notifications = VBool True, reminder_notifications = VBool True,
            data_retention_days = VInt 30, allow_data_analysis = VBool True,
            preferences_data = VNone, p_created_at = VTime (utcnow w),
            p_updated_at = VTime (utcnow w)\<rparr>, w'))"












section \<open>auth.py: the user manager\<close>

text \<open>
  \<open>UserManager.create_user_preferences\<close>: the handler prints and raises the exception
  again.
\<close>

definition create_user_preferences :: "objid \<Rightarrow> world \<Rightarrow> (exn + unit) \<times> world" where
  "create_user_preferences user_id w =
     (case UserPreferences_find_one user_id w of
        Inl e \<Rightarrow> (Inl e, w)
      | Inr (Some existing_preferences) \<Rightarrow> (Inr (), w)
      | Inr None \<Rightarrow>
          (case UserPreferences_default user_id w of
             (preferences, w1) \<Rightarrow>
               (case UserPreferences_insert preferences w1 of
                  (Inl e, w2) \<Rightarrow> (Inl e, w2)
                | (Inr u, w2) \<Rightarrow> (Inr (), w2))))"

text \<open>
  \<open>UserManager.on_after_register\<close>: the handler prints the error and does not raise it
  again.
\<close>

definition on_after_register :: "user_db \<Rightarrow> world \<Rightarrow> (exn + unit) \<times> world" where
  "on_after_register user w =
     (case create_user_preferences (uid user) w of
        (Inl e, w') \<Rightarrow> (Inr (), w')
      | (Inr u, w') \<Rightarrow> (Inr (), w'))"

text \<open>
  The \<open>users\<close> collection. \<open>insert\<close> gives the document a fresh identifier; \<open>save\<close>
  updates the stored document with the same identifier, or inserts.
\<close>

definition UserDB_insert :: "user_db \<Rightarrow> world \<Rightarrow> user_db \<times> world" where
  "UserDB_insert user w =
     (case new_oid w of
        (i, w') \<Rightarrow> (user\<lparr>uid := i\<rparr>, w'\<lparr>users := users w' @ [user\<lparr>uid := i\<rparr>]\<rparr>))"

fun upsert_user :: "user_db \<Rightarrow> user_db list \<Rightarrow> user_db list" where
  "upsert_user u [] = [u]"
| "upsert_user u (x # xs) = (if uid x = uid u then u # xs else x # upsert_user u xs)"

definition UserDB_save :: "user_db \<Rightarrow> world \<Rightarrow> world" where
  "UserDB_save user w = w\<lparr>users := upsert_user user (users w)\<rparr>"

text \<open>
  \<open>UserManager.oauth_callback\<close>. \<open>kwargs\<close> holds the keyword arguments (\<open>name\<close>,
  \<open>picture\<close>); \<open>kwargs.get(k)\<close> is \<open>map_of kwargs k\<close>. The result is \<open>None\<close> when the
  provider is not \<open>google\<close>: the function falls off its end.
\<close>

definition oauth_callback ::
    "string \<Rightarrow> string \<Rightarrow> string \<Rightarrow> string \<Rightarrow> (string \<times> string) list \<Rightarrow> world
       \<Rightarrow> (exn + user_db option) \<times> world" where
  "oauth_callback oauth_name access_token account_id account_email kwargs w =
     (if oauth_name = ''google'' then
        (case find (\<lambda>u. google_id u = Some account_id) (users w) of
           Some user \<Rightarrow> (Inr (Some user), w)
         | None \<Rightarrow>
             (case find (\<lambda>u. email u = account_email) (users w) of
                Some user \<Rightarrow>
                  (let user' = user\<lparr>google_id := Some account_id,
                                    avatar_url := map_of kwargs ''picture'',
                                    full_name := map_of kwargs ''name'',
                                    updated_at := utcnow w\<rparr>
                   in (Inr (Some user'), UserDB_save user' w))
              | None \<Rightarrow>
                  (case UserDB_insert
                          \<lparr>uid = 0, email = account_email, hashed_password = [],
                           is_active = True, is_superuser = False, is_verified = True,
                           full_name = map_of kwargs ''name'', google_id = Some account_id,
                           avatar_url = map_of kwargs ''picture'', role = ''interviewee'',
                           created_at = utcnow w, updated_at = utcnow w\<rparr> w of
                     (user, w1) \<Rightarrow>
                       (case create_user_preferences (uid user) w1 of
                          (Inl e, w2) \<Rightarrow> (Inl e, w2)
                        | (Inr u, w2) \<Rightarrow> (Inr (Some user), w2)))))
      else (Inr None, w))"

text \<open>
  The record that the link branch of \<open>oauth_callback\<close> stores and returns, and the record
  that its create branch inserts, named for use in the statements below.
\<close>

definition linked :: "user_db \<Rightarrow> string \<Rightarrow> (string \<times> string) list \<Rightarrow> world \<Rightarrow> user_db" where
  "linked user acct kw w =
     user\<lparr>google_id := Some acct, avatar_url := map_of kw ''picture'',
          full_name := map_of kw ''name'', updated_at := utcnow w\<rparr>"

definition created :: "string \<Rightarrow> string \<Rightarrow> (string \<times> string) list \<Rightarrow> world \<Rightarrow> user_db" where
  "created acct em kw w =
     \<lparr>uid = next_oid w, email = em, hashed_password = [], is_active = True,
      is_superuser = False, is_verified = True, full_name = map_of kw ''name'',
      google_id = Some acct, avatar_url = map_of kw ''picture'', role = ''interviewee'',
      created_at = utcnow w, updated_at = utcnow w\<rparr>"

section \<open>Registration\<close>











section \<open>Tokens\<close>




datatype token_error = ExpiredToken | MalformedToken | InvalidSignature



section \<open>Example data\<close>

definition world0 :: world where
  "world0 = \<lparr>users = [], user_sessions = [], media_files = [], llm_conversations = [],
     user_prefs = [], blobs = [], clock = 1000, next_oid = 100,
     db_faults = [], blob_faults = []\<rparr>"

definition mk_user :: "objid \<Rightarrow> string \<Rightarrow> string \<Rightarrow> user_db" where
  "mk_user i e h = \<lparr>uid = i, email = e, hashed_password = h, is_active = True,
     is_superuser = False, is_verified = False, full_name = None, google_id = None,
     avatar_url = None, role = ''interviewee'', created_at = 10, updated_at = 10\<rparr>"

definition mk_session :: "objid \<Rightarrow> objid \<Rightarrow> int \<Rightarrow> user_session" where
  "mk_session i u t = \<lparr>s_id = i, s_user_id = u, session_name = ''mock'',
     session_type = ''technical'', status = ''active'', s_created_at = t, s_updated_at = t,
     metadata = None\<rparr>"

definition mk_media :: "objid \<Rightarrow> objid \<Rightarrow> string \<Rightarrow> media_file" where
  "mk_media i u p = \<lparr>m_id = i, m_user_id = u, m_session_id = None, file_type = ''video'',
     file_path = p, file_size = Some 5, duration = None, mime_type = Some ''video/mp4'',
     m_created_at = 20, processing_status = ''pending'', ai_analysis = None\<rparr>"

definition local_storage :: storage_service where
  "local_storage = \<lparr>storage_type = ''local'', bucket_name = None\<rparr>"


text \<open>User 2 owns session 7 and media file 9; user 1 owns nothing.\<close>

definition world_owned :: world where
  "world_owned = world0\<lparr>user_sessions := [mk_session 7 2 50],
     media_files := [mk_media 9 2 ''storage/users/2/uploads/a.mp4''],
     blobs := [''storage/users/2/uploads/a.mp4'']\<rparr>"

text \<open>User 2 created session 7 at time 50 and then session 8 at time 60.\<close>

definition world_two_sessions :: world where
  "world_two_sessions = world0\<lparr>user_sessions := [mk_session 7 2 50, mk_session 8 2 60]\<rparr>"

text \<open>As \<open>world_owned\<close>, but the storage backend refuses to delete the blob of file 9.\<close>

definition world_refusing :: world where
  "world_refusing = world_owned\<lparr>blob_faults := [''storage/users/2/uploads/a.mp4'']\<rparr>"

text \<open>As \<open>world_owned\<close>, but deleting a media record fails.\<close>

definition world_record_stuck :: world where
  "world_record_stuck = world_owned\<lparr>db_faults := [(MediaDelete, Exception ''write failed'')]\<rparr>"

text \<open>An empty database whose preferences collection refuses inserts.\<close>

definition world_prefs_down :: world where
  "world_prefs_down =
     world0\<lparr>db_faults := [(PrefsInsert, Exception ''preferences unavailable'')]\<rparr>"

text \<open>
  User 1 registered with a password as a@x.com; user 2 signed in with the Google account
  g-2 as b@x.com.
\<close>

definition google_user :: user_db where
  "google_user = (mk_user 2 ''b@x.com'' [])\<lparr>google_id := Some ''g-2'', is_verified := True\<rparr>"

definition world_accounts :: world where
  "world_accounts = world0\<lparr>users := [mk_user 1 ''a@x.com'' ''h'', google_user]\<rparr>"







section \<open>Ownership guard\<close>

lemma owns_session_iff:
  "user_owns_resource u r ''session'' w = ((r, u) \<in> set (resource_table ''session'' w))"
  by (auto simp: user_owns_resource_def resource_table_def find_None_iff image_iff)

lemma owns_media_iff:
  "user_owns_resource u r ''media'' w = ((r, u) \<in> set (resource_table ''media'' w))"
  by (auto simp: user_owns_resource_def resource_table_def find_None_iff image_iff)

lemma owns_conversation_iff:
  "user_owns_resource u r ''conversation'' w =
     ((r, u) \<in> set (resource_table ''conversation'' w))"
  by (auto simp: user_owns_resource_def resource_table_def find_None_iff image_iff)

text \<open>
  C1. For each of the three resource kinds, \<open>user_owns_resource u r k\<close> is true exactly
  when a resource of kind \<open>k\<close> with identifier \<open>r\<close> and owner \<open>u\<close> exists; it is a plain
  boolean (no error) otherwise. Whenever the requester does not own the resource, be it
  missing or owned by someone else, the session endpoint answers with the same
  404 "Session not found", and the file endpoints with the same 404 "File not found",
  leaving the world as it was.
\<close>

theorem user_owns_resource_iff_owned:
  assumes "k \<in> {''session'', ''media'', ''conversation''}"
  shows "user_owns_resource u r k w = ((r, u) \<in> set (resource_table k w))
    \<and> ((r, uid cu) \<notin> set (resource_table ''session'' w) \<longrightarrow>
         get_session r cu w = Inl (HTTPException 404 ''Session not found''))
    \<and> ((r, uid cu) \<notin> set (resource_table ''media'' w) \<longrightarrow>
         get_file sto r cu w = Inl (HTTPException 404 ''File not found'')
         \<and> delete_file sto r cu w = (Inl (HTTPException 404 ''File not found''), w))"
proof -
  from assms have owns: "user_owns_resource u r k w = ((r, u) \<in> set (resource_table k w))"
    using owns_session_iff owns_media_iff owns_conversation_iff by auto
  have sess: "(r, uid cu) \<notin> set (resource_table ''session'' w) \<longrightarrow>
      get_session r cu w = Inl (HTTPException 404 ''Session not found'')"
    by (simp add: get_session_def owns_session_iff)
  have med: "(r, uid cu) \<notin> set (resource_table ''media'' w) \<longrightarrow>
      get_file sto r cu w = Inl (HTTPException 404 ''File not found'')
      \<and> delete_file sto r cu w = (Inl (HTTPException 404 ''File not found''), w)"
    by (simp add: get_file_def delete_file_def owns_media_iff)
  from owns sess med show ?thesis by blast
qed

text \<open>
  In \<open>world_owned\<close> user 1 asks for session 7 and file 9 (both owned by user 2) and for
  session 8 and file 8 (which do not exist): all four answers are the uniform 404.
\<close>

theorem user_owns_resource_iff_owned_witness:
  "''session'' \<in> {''session'', ''media'', ''conversation''}
   \<and> \<not> user_owns_resource 1 7 ''session'' world_owned
   \<and> \<not> user_owns_resource 1 8 ''session'' world_owned
   \<and> user_owns_resource 2 7 ''session'' world_owned
   \<and> get_session 7 (mk_user 1 ''a@x.com'' ''h'') world_owned
        = Inl (HTTPException 404 ''Session not found'')
   \<and> get_session 8 (mk_user 1 ''a@x.com'' ''h'') world_owned
        = Inl (HTTPException 404 ''Session not found'')
   \<and> delete_file local_storage 9 (mk_user 1 ''a@x.com'' ''h'') world_owned
        = (Inl (HTTPException 404 ''File not found''), world_owned)
   \<and> delete_file local_storage 8 (mk_user 1 ''a@x.com'' ''h'') world_owned
        = (Inl (HTTPException 404 ''File not found''), world_owned)"
  using user_owns_resource_iff_owned [of "''session''" 1 7 world_owned
          "mk_user 1 ''a@x.com'' ''h''" local_storage]
        user_owns_resource_iff_owned [of "''session''" 1 8 world_owned
          "mk_user 1 ''a@x.com'' ''h''" local_storage]
        user_owns_resource_iff_owned [of "''session''" 2 7 world_owned
          "mk_user 1 ''a@x.com'' ''h''" local_storage]
        user_owns_resource_iff_owned [of "''media''" 1 9 world_owned
          "mk_user 1 ''a@x.com'' ''h''" local_storage]
  by (simp add: resource_table_def world_owned_def world0_def mk_session_def mk_media_def
        mk_user_def)

section \<open>Listing sessions\<close>

text \<open>
  C9 (as amended). The session list of a user holds exactly the sessions of the
  collection whose \<open>user_id\<close> is the user's, each as often as the collection holds it, in
  the order of the collection: the query asks for no sort.
\<close>

theorem get_user_sessions_owned_in_store_order:
  "set (get_user_sessions cu w) = {s. s \<in> set (user_sessions w) \<and> s_user_id s = uid cu}
   \<and> subseq (get_user_sessions cu w) (user_sessions w)
   \<and> length (get_user_sessions cu w)
       = length (filter (\<lambda>i. i = uid cu) (map s_user_id (user_sessions w)))"
proof -
  have "set (get_user_sessions cu w) = {s. s \<in> set (user_sessions w) \<and> s_user_id s = uid cu}"
    by (auto simp: get_user_sessions_def UserService_get_user_sessions_def)
  moreover have "subseq (get_user_sessions cu w) (user_sessions w)"
    by (simp add: get_user_sessions_def UserService_get_user_sessions_def)
  moreover have "length (get_user_sessions cu w)
       = length (filter (\<lambda>i. i = uid cu) (map s_user_id (user_sessions w)))"
    by (simp add: get_user_sessions_def UserService_get_user_sessions_def filter_map comp_def)
  ultimately show ?thesis by blast
qed

text \<open>
  The claim as stated fails: user 2 created session 7 at time 50 and session 8 at time 60;
  the list comes back oldest first, which is not descending by \<open>created_at\<close>.
\<close>

theorem get_user_sessions_not_descending_counterexample:
  "map s_created_at (get_user_sessions (mk_user 2 ''b@x.com'' ''h'') world_two_sessions)
     = [50, 60]
   \<and> \<not> sorted_wrt (\<lambda>a b. s_created_at b \<le> s_created_at a)
         (get_user_sessions (mk_user 2 ''b@x.com'' ''h'') world_two_sessions)"
  by (simp add: get_user_sessions_def UserService_get_user_sessions_def
        world_two_sessions_def world0_def mk_session_def mk_user_def)

section \<open>Deleting blobs and files\<close>


lemma os_remove_raises_OSError: "fst (os_remove path w) = Inl e \<Longrightarrow> is_OSError e"
  by (auto simp: os_remove_def split: if_splits)

lemma s3_delete_object_raises_ClientError:
  "fst (s3_delete_object key w) = Inl e \<Longrightarrow> is_ClientError e"
  by (auto simp: s3_delete_object_def split: if_splits)

lemma StorageService_delete_file_returns:
  "\<exists>b. fst (StorageService_delete_file sto path w) = Inr b"
proof (cases "storage_type sto = ''local''")
  case True
  show ?thesis
  proof (cases "os_remove path w")
    case (Pair r w')
    then show ?thesis
      using True os_remove_raises_OSError [of path w]
      by (cases r) (auto simp: StorageService_delete_file_def)
  qed
next
  case notlocal: False
  show ?thesis
  proof (cases "storage_type sto = ''s3''")
    case True
    show ?thesis
    proof (cases "s3_delete_object path w")
      case (Pair r w')
      then show ?thesis
        using True notlocal s3_delete_object_raises_ClientError [of path w]
        by (cases r) (auto simp: StorageService_delete_file_def)
    qed
  next
    case False
    with notlocal show ?thesis by (simp add: StorageService_delete_file_def)
  qed
qed




lemma find_by_id_distinct:
  "distinct (map m_id ms) \<Longrightarrow> d \<in> set ms \<Longrightarrow> find (\<lambda>m. m_id m = m_id d) ms = Some d"
  by (induction ms) (auto simp: image_iff)

lemma remove_by_id_gone:
  "distinct (map m_id ms) \<Longrightarrow> i \<notin> set (map m_id (remove_by_id i ms))"
  by (induction ms) auto

lemma owned_media_found:
  assumes "distinct (map m_id (media_files w))"
    and "user_owns_resource u f ''media'' w"
  shows "\<exists>mf. MediaFile_get f w = Some mf \<and> m_id mf = f \<and> m_user_id mf = u"
proof -
  from assms(2) obtain d where d: "d \<in> set (media_files w)" "m_id d = f" "m_user_id d = u"
    by (auto simp: user_owns_resource_def find_None_iff)
  from find_by_id_distinct [OF assms(1) d(1)] d show ?thesis
    by (auto simp: MediaFile_get_def)
qed

lemma StorageService_delete_file_keeps_db:
  "media_files (snd (StorageService_delete_file sto path w)) = media_files w
   \<and> db_faults (snd (StorageService_delete_file sto path w)) = db_faults w"
  by (auto simp: StorageService_delete_file_def os_remove_def s3_delete_object_def)

lemma StorageService_delete_file_removes:
  assumes "storage_type sto \<in> {''local'', ''s3''}" and "path \<notin> set (blob_faults w)"
  shows "path \<notin> set (blobs (snd (StorageService_delete_file sto path w)))"
  using assms
  by (auto simp: StorageService_delete_file_def os_remove_def s3_delete_object_def)

lemma MediaFile_delete_keeps_blobs: "blobs (snd (MediaFile_delete mf w)) = blobs w"
  by (simp add: MediaFile_delete_def split: option.splits)

lemma delete_file_owned_unfold:
  assumes "user_owns_resource (uid cu) f ''media'' w" and "MediaFile_get f w = Some mf"
  shows "delete_file sto f cu w =
     (case MediaFile_delete mf (snd (StorageService_delete_file sto (file_path mf) w)) of
        (Inl e, w2) \<Rightarrow> (Inl e, w2)
      | (Inr u, w2) \<Rightarrow> (Inr ''File deleted successfully'', w2))"
proof (cases "StorageService_delete_file sto (file_path mf) w")
  case (Pair r w1)
  with StorageService_delete_file_returns [of sto "file_path mf" w]
  obtain b where "r = Inr b" by auto
  with Pair assms show ?thesis
    by (simp add: delete_file_def)
qed

text \<open>
  C7 (as amended). A requester who does not own the file (it is missing, or someone
  else's) gets 404 "File not found" and the world is unchanged. For the owner, the blob is
  dealt with first and the record after it: whenever the storage backend (local or S3)
  does not refuse the deletion, the blob is gone afterwards, also when deleting the record
  then fails, in which case the error is raised and the record is still there (nothing is
  rolled back); when deleting the record succeeds, the endpoint reports success and no
  record with this identifier is left.
\<close>

theorem delete_file_guarded_blob_then_record:
  assumes "distinct (map m_id (media_files w))"
  shows "(\<not> user_owns_resource (uid cu) f ''media'' w \<longrightarrow>
            delete_file sto f cu w = (Inl (HTTPException 404 ''File not found''), w))
    \<and> (user_owns_resource (uid cu) f ''media'' w \<longrightarrow>
         (\<exists>mf. MediaFile_get f w = Some mf \<and> m_user_id mf = uid cu
            \<and> (storage_type sto \<in> {''local'', ''s3''} \<and> file_path mf \<notin> set (blob_faults w)
                 \<longrightarrow> file_path mf \<notin> set (blobs (snd (delete_file sto f cu w))))
            \<and> (\<forall>e. fault_of MediaDelete w = Some e \<longrightarrow>
                   fst (delete_file sto f cu w) = Inl e
                   \<and> media_files (snd (delete_file sto f cu w)) = media_files w)
            \<and> (fault_of MediaDelete w = None \<longrightarrow>
                   fst (delete_file sto f cu w) = Inr ''File deleted successfully''
                   \<and> f \<notin> set (map m_id (media_files (snd (delete_file sto f cu w)))))))"
proof (intro conjI impI)
  assume "\<not> user_owns_resource (uid cu) f ''media'' w"
  then show "delete_file sto f cu w = (Inl (HTTPException 404 ''File not found''), w)"
    by (simp add: delete_file_def)
next
  assume own: "user_owns_resource (uid cu) f ''media'' w"
  from owned_media_found [OF assms own] obtain mf
    where mf: "MediaFile_get f w = Some mf" "m_id mf = f" "m_user_id mf = uid cu"
    by blast
  define w1 where "w1 = snd (StorageService_delete_file sto (file_path mf) w)"
  have unfold: "delete_file sto f cu w =
     (case MediaFile_delete mf w1 of
        (Inl e, w2) \<Rightarrow> (Inl e, w2)
      | (Inr u, w2) \<Rightarrow> (Inr ''File deleted successfully'', w2))"
    unfolding w1_def by (rule delete_file_owned_unfold [OF own mf(1)])
  have db: "media_files w1 = media_files w" "fault_of MediaDelete w1 = fault_of MediaDelete w"
    using StorageService_delete_file_keeps_db [of sto "file_path mf" w]
    by (simp_all add: w1_def fault_of_def)
  have blobs_kept: "blobs (snd (delete_file sto f cu w)) = blobs w1"
    using MediaFile_delete_keeps_blobs [of mf w1]
    by (cases "MediaFile_delete mf w1") (auto simp: unfold split: sum.splits)
  have blob: "storage_type sto \<in> {''local'', ''s3''} \<and> file_path mf \<notin> set (blob_faults w)
      \<longrightarrow> file_path mf \<notin> set (blobs (snd (delete_file sto f cu w)))"
    using StorageService_delete_file_removes [of sto "file_path mf" w]
    by (simp add: blobs_kept w1_def)
  have failing: "\<forall>e. fault_of MediaDelete w = Some e \<longrightarrow>
      fst (delete_file sto f cu w) = Inl e
      \<and> media_files (snd (delete_file sto f cu w)) = media_files w"
    using db by (simp add: unfold MediaFile_delete_def)
  have removed: "fault_of MediaDelete w = None \<longrightarrow>
      fst (delete_file sto f cu w) = Inr ''File deleted successfully''
      \<and> f \<notin> set (map m_id (media_files (snd (delete_file sto f cu w))))"
    using db mf(2) remove_by_id_gone [OF assms, of f]
    by (simp add: unfold MediaFile_delete_def)
  show "\<exists>mf. MediaFile_get f w = Some mf \<and> m_user_id mf = uid cu
            \<and> (storage_type sto \<in> {''local'', ''s3''} \<and> file_path mf \<notin> set (blob_faults w)
                 \<longrightarrow> file_path mf \<notin> set (blobs (snd (delete_file sto f cu w))))
            \<and> (\<forall>e. fault_of MediaDelete w = Some e \<longrightarrow>
                   fst (delete_file sto f cu w) = Inl e
                   \<and> media_files (snd (delete_file sto f cu w)) = media_files w)
            \<and> (fault_of MediaDelete w = None \<longrightarrow>
                   fst (delete_file sto f cu w) = Inr ''File deleted successfully''
                   \<and> f \<notin> set (map m_id (media_files (snd (delete_file sto f cu w)))))"
    using mf(1,3) blob failing removed by (intro exI [of _ mf] conjI)
qed

text \<open>
  In \<open>world_owned\<close> user 2 owns file 9. User 1 gets 404 and nothing changes; user 2
  removes blob and record; and when deleting the record fails, user 2 gets the error, the
  blob is gone and the record is still there.
\<close>

theorem delete_file_guarded_blob_then_record_witness:
  "distinct (map m_id (media_files world_owned))
   \<and> delete_file local_storage 9 (mk_user 1 ''a@x.com'' ''h'') world_owned
       = (Inl (HTTPException 404 ''File not found''), world_owned)
   \<and> user_owns_resource 2 9 ''media'' world_owned
   \<and> fst (delete_file local_storage 9 (mk_user 2 ''b@x.com'' ''h'') world_owned)
       = Inr ''File deleted successfully''
   \<and> blobs (snd (delete_file local_storage 9 (mk_user 2 ''b@x.com'' ''h'') world_owned)) = []
   \<and> media_files (snd (delete_file local_storage 9 (mk_user 2 ''b@x.com'' ''h'') world_owned))
       = []
   \<and> fst (delete_file local_storage 9 (mk_user 2 ''b@x.com'' ''h'') world_record_stuck)
       = Inl (Exception ''write failed'')
   \<and> blobs (snd (delete_file local_storage 9 (mk_user 2 ''b@x.com'' ''h'')
       world_record_stuck)) = []
   \<and> media_files (snd (delete_file local_storage 9 (mk_user 2 ''b@x.com'' ''h'')
       world_record_stuck)) = media_files world_record_stuck"
  using delete_file_guarded_blob_then_record
          [of world_owned "mk_user 1 ''a@x.com'' ''h''" 9 local_storage]
        delete_file_guarded_blob_then_record
          [of world_owned "mk_user 2 ''b@x.com'' ''h''" 9 local_storage]
        delete_file_guarded_blob_then_record
          [of world_record_stuck "mk_user 2 ''b@x.com'' ''h''" 9 local_storage]
  by (simp add: world_record_stuck_def world_owned_def world0_def local_storage_def
        mk_media_def mk_user_def mk_session_def user_owns_resource_def MediaFile_get_def
        fault_of_def delete_file_def StorageService_delete_file_def os_remove_def
        MediaFile_delete_def)

text \<open>
  The claim as stated fails where the backend refuses to delete the blob: user 2 owns
  file 9, the request succeeds and removes the record, and the blob is still stored.
\<close>

theorem delete_file_keeps_blob_counterexample:
  "user_owns_resource 2 9 ''media'' world_refusing
   \<and> fst (delete_file local_storage 9 (mk_user 2 ''b@x.com'' ''h'') world_refusing)
       = Inr ''File deleted successfully''
   \<and> media_files (snd (delete_file local_storage 9 (mk_user 2 ''b@x.com'' ''h'')
       world_refusing)) = []
   \<and> ''storage/users/2/uploads/a.mp4''
       \<in> set (blobs (snd (delete_file local_storage 9 (mk_user 2 ''b@x.com'' ''h'')
             world_refusing)))"
  by (simp add: world_refusing_def world_owned_def world0_def local_storage_def
        mk_media_def mk_user_def mk_session_def user_owns_resource_def MediaFile_get_def
        fault_of_def delete_file_def StorageService_delete_file_def os_remove_def
        MediaFile_delete_def)

section \<open>Default preferences as a side effect\<close>


text \<open>
  C5. The claim holds for registration (\<open>on_after_register\<close> swallows the failure) and
  fails for the new-user branch of \<open>oauth_callback\<close>, which calls
  \<open>create_user_preferences\<close> outside any handler. With the preferences collection
  refusing inserts, a Google sign-in of an unknown account inserts the user and then raises
  the failure instead of returning the user, while \<open>on_after_register\<close> in the same world
  returns normally.
\<close>

theorem oauth_callback_propagates_preferences_failure:
  "fst (oauth_callback ''google'' ''tok'' ''g-1'' ''new@x.com'' [(''name'', ''New'')]
          world_prefs_down) = Inl (Exception ''preferences unavailable'')
   \<and> map email (users (snd (oauth_callback ''google'' ''tok'' ''g-1'' ''new@x.com''
          [(''name'', ''New'')] world_prefs_down))) = [''new@x.com'']
   \<and> fst (on_after_register (mk_user 1 ''a@x.com'' ''h'') world_prefs_down) = Inr ()"
  by (simp add: oauth_callback_def world_prefs_down_def world0_def UserDB_insert_def
        new_oid_def create_user_preferences_def UserPreferences_find_one_def
        UserPreferences_default_def UserPreferences_insert_def fault_of_def utcnow_def
        on_after_register_def mk_user_def)

section \<open>OAuth resolution\<close>

lemma find_SomeD: "find P xs = Some x \<Longrightarrow> x \<in> set xs \<and> P x"
  by (induction xs) (auto split: if_splits)

lemma find_ex_Some: "\<exists>x \<in> set xs. P x \<Longrightarrow> \<exists>y. find P xs = Some y"
  by (cases "find P xs") (auto simp: find_None_iff)

lemma upsert_user_mem: "u \<in> set (upsert_user u xs)"
  by (induction xs) auto

lemma upsert_user_length:
  "uid u \<in> set (map uid xs) \<Longrightarrow> length (upsert_user u xs) = length xs"
  by (induction xs) auto

lemma find_upsert_user:
  "\<forall>x \<in> set xs. \<not> P x \<Longrightarrow> P u \<Longrightarrow> find P (upsert_user u xs) = Some u"
  by (induction xs) auto

lemma find_append_new: "\<forall>x \<in> set xs. \<not> P x \<Longrightarrow> P u \<Longrightarrow> find P (xs @ [u]) = Some u"
  by (induction xs) auto

lemma create_user_preferences_users:
  "users (snd (create_user_preferences i w)) = users w"
  by (simp add: create_user_preferences_def UserPreferences_find_one_def
        UserPreferences_default_def UserPreferences_insert_def new_oid_def
      split: option.splits)

lemma create_user_preferences_ok:
  assumes "fault_of PrefsFind w = None" and "fault_of PrefsInsert w = None"
  shows "fst (create_user_preferences i w) = Inr ()"
  using assms
  by (simp add: create_user_preferences_def UserPreferences_find_one_def
        UserPreferences_default_def UserPreferences_insert_def new_oid_def fault_of_def
      split: option.splits)

text \<open>The three branches of \<open>oauth_callback\<close> for the provider \<open>google\<close>.\<close>

lemma oauth_callback_known_account:
  assumes "find (\<lambda>u. google_id u = Some acct) (users w) = Some user"
  shows "oauth_callback ''google'' tok acct em kw w = (Inr (Some user), w)"
  using assms by (simp add: oauth_callback_def)

lemma oauth_callback_link:
  assumes "find (\<lambda>u. google_id u = Some acct) (users w) = None"
    and "find (\<lambda>u. email u = em) (users w) = Some user"
  shows "oauth_callback ''google'' tok acct em kw w =
           (Inr (Some (linked user acct kw w)),
            w\<lparr>users := upsert_user (linked user acct kw w) (users w)\<rparr>)"
  using assms by (simp add: oauth_callback_def linked_def UserDB_save_def Let_def)

lemma oauth_callback_create:
  assumes "find (\<lambda>u. google_id u = Some acct) (users w) = None"
    and "find (\<lambda>u. email u = em) (users w) = None"
  shows "users (snd (oauth_callback ''google'' tok acct em kw w))
           = users w @ [created acct em kw w]
     \<and> (fst (oauth_callback ''google'' tok acct em kw w) = Inr (Some (created acct em kw w))
        \<or> (\<exists>e. fst (oauth_callback ''google'' tok acct em kw w) = Inl e))
     \<and> (fault_of PrefsFind w = None \<and> fault_of PrefsInsert w = None \<longrightarrow>
          fst (oauth_callback ''google'' tok acct em kw w) = Inr (Some (created acct em kw w)))"
proof -
  define w1 where
    "w1 = (w\<lparr>next_oid := Suc (next_oid w)\<rparr>)\<lparr>users := users w @ [created acct em kw w]\<rparr>"
  have unfold: "oauth_callback ''google'' tok acct em kw w =
      (case create_user_preferences (next_oid w) w1 of
         (Inl e, w2) \<Rightarrow> (Inl e, w2)
       | (Inr u, w2) \<Rightarrow> (Inr (Some (created acct em kw w)), w2))"
    using assms unfolding created_def w1_def
    by (simp add: oauth_callback_def UserDB_insert_def new_oid_def)
  have faults: "fault_of PrefsFind w1 = fault_of PrefsFind w"
    "fault_of PrefsInsert w1 = fault_of PrefsInsert w"
    by (simp_all add: w1_def fault_of_def)
  obtain r w2 where c: "create_user_preferences (next_oid w) w1 = (r, w2)"
    by (cases "create_user_preferences (next_oid w) w1") auto
  have "users w2 = users w1"
    using create_user_preferences_users [of "next_oid w" w1] c by simp
  then have u: "users (snd (oauth_callback ''google'' tok acct em kw w))
      = users w @ [created acct em kw w]"
    using c by (cases r) (simp_all add: unfold w1_def)
  have alt: "fst (oauth_callback ''google'' tok acct em kw w) = Inr (Some (created acct em kw w))
        \<or> (\<exists>e. fst (oauth_callback ''google'' tok acct em kw w) = Inl e)"
    using c by (cases r) (simp_all add: unfold)
  have ok: "fault_of PrefsFind w = None \<and> fault_of PrefsInsert w = None \<longrightarrow>
      fst (oauth_callback ''google'' tok acct em kw w) = Inr (Some (created acct em kw w))"
    using create_user_preferences_ok [of w1 "next_oid w"] faults c
    by (cases r) (auto simp: unfold)
  from u alt ok show ?thesis by blast
qed

lemma oauth_callback_other_provider:
  "provider \<noteq> ''google'' \<Longrightarrow> oauth_callback provider tok acct em kw w = (Inr None, w)"
  by (simp add: oauth_callback_def)

text \<open>
  C2 (as amended). For the provider \<open>google\<close>, resolution follows the three-way priority
  order: (1) if a user with this account id exists, such a user is returned and nothing
  changes; (2) otherwise, if a user with this email exists, such a user is linked (account
  id set, name and avatar overwritten from the profile, \<open>updated_at\<close> set to the current
  time, identifier, email and password hash kept), stored in place of the old record and
  returned; (3) otherwise a new user is inserted with this email, the account id, an empty
  password hash, \<open>is_verified\<close> true and the profile fields, and it is returned when
  creating its default preferences does not fail. For any other provider no user is
  resolved and nothing changes.
\<close>

theorem oauth_callback_three_way:
  "((\<exists>u \<in> set (users w). google_id u = Some acct) \<longrightarrow>
      (\<exists>user \<in> set (users w). google_id user = Some acct
         \<and> oauth_callback ''google'' tok acct em kw w = (Inr (Some user), w)))
   \<and> ((\<forall>u \<in> set (users w). google_id u \<noteq> Some acct) \<and> (\<exists>u \<in> set (users w). email u = em) \<longrightarrow>
      (\<exists>old \<in> set (users w). \<exists>user. email old = em
         \<and> fst (oauth_callback ''google'' tok acct em kw w) = Inr (Some user)
         \<and> uid user = uid old \<and> email user = em
         \<and> hashed_password user = hashed_password old
         \<and> google_id user = Some acct
         \<and> full_name user = map_of kw ''name'' \<and> avatar_url user = map_of kw ''picture''
         \<and> updated_at user = utcnow w
         \<and> user \<in> set (users (snd (oauth_callback ''google'' tok acct em kw w)))
         \<and> length (users (snd (oauth_callback ''google'' tok acct em kw w)))
             = length (users w)))
   \<and> ((\<forall>u \<in> set (users w). google_id u \<noteq> Some acct) \<and> (\<forall>u \<in> set (users w). email u \<noteq> em) \<longrightarrow>
      (\<exists>user. users (snd (oauth_callback ''google'' tok acct em kw w)) = users w @ [user]
         \<and> email user = em \<and> google_id user = Some acct \<and> hashed_password user = []
         \<and> is_verified user
         \<and> full_name user = map_of kw ''name'' \<and> avatar_url user = map_of kw ''picture''
         \<and> (fault_of PrefsFind w = None \<and> fault_of PrefsInsert w = None \<longrightarrow>
              fst (oauth_callback ''google'' tok acct em kw w) = Inr (Some user))))
   \<and> (provider \<noteq> ''google'' \<longrightarrow>
        oauth_callback provider tok acct em kw w = (Inr None, w))"
proof (intro conjI impI)
  assume "\<exists>u \<in> set (users w). google_id u = Some acct"
  then obtain user where f: "find (\<lambda>u. google_id u = Some acct) (users w) = Some user"
    using find_ex_Some [of "users w" "\<lambda>u. google_id u = Some acct"] by blast
  from find_SomeD [OF f] oauth_callback_known_account [OF f]
  show "\<exists>user \<in> set (users w). google_id user = Some acct
         \<and> oauth_callback ''google'' tok acct em kw w = (Inr (Some user), w)"
    by blast
next
  assume a: "(\<forall>u \<in> set (users w). google_id u \<noteq> Some acct)
     \<and> (\<exists>u \<in> set (users w). email u = em)"
  then have g: "find (\<lambda>u. google_id u = Some acct) (users w) = None"
    by (simp add: find_None_iff)
  from a obtain old where f: "find (\<lambda>u. email u = em) (users w) = Some old"
    using find_ex_Some [of "users w" "\<lambda>u. email u = em"] by blast
  from find_SomeD [OF f] have old: "old \<in> set (users w)" "email old = em" by simp_all
  let ?user = "linked old acct kw w"
  note res = oauth_callback_link [OF g f, of tok kw]
  have len: "length (upsert_user ?user (users w)) = length (users w)"
    using old(1) by (intro upsert_user_length) (simp add: linked_def)
  have "fst (oauth_callback ''google'' tok acct em kw w) = Inr (Some ?user)
         \<and> uid ?user = uid old \<and> email ?user = em
         \<and> hashed_password ?user = hashed_password old
         \<and> google_id ?user = Some acct
         \<and> full_name ?user = map_of kw ''name'' \<and> avatar_url ?user = map_of kw ''picture''
         \<and> updated_at ?user = utcnow w
         \<and> ?user \<in> set (users (snd (oauth_callback ''google'' tok acct em kw w)))
         \<and> length (users (snd (oauth_callback ''google'' tok acct em kw w)))
             = length (users w)"
    using old(2) len upsert_user_mem [of ?user "users w"]
    by (simp add: res) (simp add: linked_def)
  with old show "\<exists>old \<in> set (users w). \<exists>user. email old = em
         \<and> fst (oauth_callback ''google'' tok acct em kw w) = Inr (Some user)
         \<and> uid user = uid old \<and> email user = em
         \<and> hashed_password user = hashed_password old
         \<and> google_id user = Some acct
         \<and> full_name user = map_of kw ''name'' \<and> avatar_url user = map_of kw ''picture''
         \<and> updated_at user = utcnow w
         \<and> user \<in> set (users (snd (oauth_callback ''google'' tok acct em kw w)))
         \<and> length (users (snd (oauth_callback ''google'' tok acct em kw w)))
             = length (users w)"
    by blast
next
  assume a: "(\<forall>u \<in> set (users w). google_id u \<noteq> Some acct)
     \<and> (\<forall>u \<in> set (users w). email u \<noteq> em)"
  then have g: "find (\<lambda>u. google_id u = Some acct) (users w) = None"
    and e: "find (\<lambda>u. email u = em) (users w) = None"
    by (simp_all add: find_None_iff)
  let ?user = "created acct em kw w"
  from oauth_callback_create [OF g e, of tok kw]
  have "users (snd (oauth_callback ''google'' tok acct em kw w)) = users w @ [?user]
         \<and> email ?user = em \<and> google_id ?user = Some acct \<and> hashed_password ?user = []
         \<and> is_verified ?user
         \<and> full_name ?user = map_of kw ''name'' \<and> avatar_url ?user = map_of kw ''picture''
         \<and> (fault_of PrefsFind w = None \<and> fault_of PrefsInsert w = None \<longrightarrow>
              fst (oauth_callback ''google'' tok acct em kw w) = Inr (Some ?user))"
    by (simp add: created_def)
  then show "\<exists>user. users (snd (oauth_callback ''google'' tok acct em kw w)) = users w @ [user]
         \<and> email user = em \<and> google_id user = Some acct \<and> hashed_password user = []
         \<and> is_verified user
         \<and> full_name user = map_of kw ''name'' \<and> avatar_url user = map_of kw ''picture''
         \<and> (fault_of PrefsFind w = None \<and> fault_of PrefsInsert w = None \<longrightarrow>
              fst (oauth_callback ''google'' tok acct em kw w) = Inr (Some user))"
    by (rule exI)
next
  assume "provider \<noteq> ''google''"
  then show "oauth_callback provider tok acct em kw w = (Inr None, w)"
    by (rule oauth_callback_other_provider)
qed

text \<open>
  In \<open>world_accounts\<close> user 1 registered with a password as a@x.com and user 2 signed in
  with Google account g-2 as b@x.com. Account g-2 resolves to user 2 and changes nothing;
  account g-1 with email a@x.com links user 1; account g-9 with an unknown email creates
  user 100; and for the provider \<open>github\<close> nothing is resolved.
\<close>

theorem oauth_callback_three_way_witness:
  "oauth_callback ''google'' ''tok'' ''g-2'' ''b@x.com'' [(''name'', ''B'')] world_accounts
     = (Inr (Some google_user), world_accounts)
   \<and> map_sum id (map_option uid)
        (fst (oauth_callback ''google'' ''tok'' ''g-1'' ''a@x.com'' [(''name'', ''A'')]
           world_accounts)) = Inr (Some 1)
   \<and> map google_id (users (snd (oauth_callback ''google'' ''tok'' ''g-1'' ''a@x.com''
        [(''name'', ''A'')] world_accounts))) = [Some ''g-1'', Some ''g-2'']
   \<and> map full_name (users (snd (oauth_callback ''google'' ''tok'' ''g-1'' ''a@x.com''
        [(''name'', ''A'')] world_accounts))) = [Some ''A'', None]
   \<and> map_sum id (map_option uid)
        (fst (oauth_callback ''google'' ''tok'' ''g-9'' ''new@x.com'' [(''name'', ''N'')]
           world_accounts)) = Inr (Some 100)
   \<and> map email (users (snd (oauth_callback ''google'' ''tok'' ''g-9'' ''new@x.com''
        [(''name'', ''N'')] world_accounts))) = [''a@x.com'', ''b@x.com'', ''new@x.com'']
   \<and> oauth_callback ''github'' ''tok'' ''g-9'' ''new@x.com'' [(''name'', ''N'')]
        world_accounts = (Inr None, world_accounts)"
  using oauth_callback_three_way [of world_accounts "''g-2''" "''tok''" "''b@x.com''"
          "[(''name'', ''B'')]" "''github''"]
        oauth_callback_three_way [of world_accounts "''g-1''" "''tok''" "''a@x.com''"
          "[(''name'', ''A'')]" "''github''"]
        oauth_callback_three_way [of world_accounts "''g-9''" "''tok''" "''new@x.com''"
          "[(''name'', ''N'')]" "''github''"]
  by (simp add: Let_def oauth_callback_def world_accounts_def world0_def google_user_def
        mk_user_def UserDB_save_def UserDB_insert_def new_oid_def utcnow_def
        create_user_preferences_def UserPreferences_find_one_def
        UserPreferences_default_def UserPreferences_insert_def fault_of_def)

text \<open>
  The claim as stated fails twice. For the provider \<open>github\<close> no user is created or
  returned, although no account matches. And linking the password account a@x.com, which
  is not verified, returns and stores it still not verified.
\<close>

theorem oauth_callback_three_way_counterexample:
  "oauth_callback ''github'' ''tok'' ''g-9'' ''new@x.com'' [(''name'', ''N'')] world_accounts
     = (Inr None, world_accounts)
   \<and> map_sum id (map_option is_verified)
        (fst (oauth_callback ''google'' ''tok'' ''g-1'' ''a@x.com'' [(''name'', ''A'')]
           world_accounts)) = Inr (Some False)
   \<and> map is_verified (users (snd (oauth_callback ''google'' ''tok'' ''g-1'' ''a@x.com''
        [(''name'', ''A'')] world_accounts))) = [False, True]"
  by (simp add: Let_def oauth_callback_def world_accounts_def world0_def google_user_def
        mk_user_def UserDB_save_def utcnow_def)

lemma oauth_callback_then_known:
  "\<exists>u. find (\<lambda>u. google_id u = Some acct)
          (users (snd (oauth_callback ''google'' tok acct em kw w))) = Some u
       \<and> (fst (oauth_callback ''google'' tok acct em kw w) = Inr (Some u)
          \<or> (\<exists>e. fst (oauth_callback ''google'' tok acct em kw w) = Inl e))"
proof (cases "find (\<lambda>u. google_id u = Some acct) (users w)")
  case (Some user)
  then show ?thesis
    by (simp add: oauth_callback_known_account)
next
  case None
  then have no: "\<forall>x \<in> set (users w). \<not> google_id x = Some acct"
    by (simp add: find_None_iff)
  show ?thesis
  proof (cases "find (\<lambda>u. email u = em) (users w)")
    case (Some old)
    have "find (\<lambda>u. google_id u = Some acct)
            (upsert_user (linked old acct kw w) (users w)) = Some (linked old acct kw w)"
      using no by (intro find_upsert_user) (simp_all add: linked_def)
    then show ?thesis
      by (simp add: oauth_callback_link [OF None Some])
  next
    case nomail: None
    note c = oauth_callback_create [OF None nomail, of tok kw]
    have "find (\<lambda>u. google_id u = Some acct) (users w @ [created acct em kw w])
            = Some (created acct em kw w)"
      using no by (intro find_append_new) (simp_all add: created_def)
    with c show ?thesis by auto
  qed
qed

text \<open>
  C3 (as amended). Call \<open>oauth_callback\<close> twice in succession with identical inputs. The
  second call never changes the user collection, so no duplicate record is created.
  Whenever the first call returns a user, the second returns the same user (the same
  identifier). For the provider \<open>google\<close> the first call does return a user when creating
  default preferences does not fail. When no user has the account id and some user has the
  email, the first call keeps the number of users and that user's record now carries the
  account id. For any other provider both calls return no user and change nothing.
\<close>

theorem oauth_callback_twice:
  fixes p tok acct em kw w
  defines "r1 \<equiv> oauth_callback p tok acct em kw w"
  defines "r2 \<equiv> oauth_callback p tok acct em kw (snd r1)"
  shows "users (snd r2) = users (snd r1)
   \<and> (\<forall>u1. fst r1 = Inr (Some u1) \<longrightarrow> fst r2 = Inr (Some u1) \<and> uid u1 \<in> set (map uid (users (snd r2))))
   \<and> (p = ''google'' \<and> fault_of PrefsFind w = None \<and> fault_of PrefsInsert w = None \<longrightarrow>
        (\<exists>u1. fst r1 = Inr (Some u1)))
   \<and> (p = ''google'' \<and> (\<forall>u \<in> set (users w). google_id u \<noteq> Some acct)
        \<and> (\<exists>u \<in> set (users w). email u = em) \<longrightarrow>
        length (users (snd r1)) = length (users w)
        \<and> (\<exists>u \<in> set (users (snd r1)). fst r1 = Inr (Some u) \<and> email u = em
              \<and> google_id u = Some acct \<and> uid u \<in> set (map uid (users w))))
   \<and> (p \<noteq> ''google'' \<longrightarrow> r1 = (Inr None, w) \<and> r2 = (Inr None, w))"
proof (cases "p = ''google''")
  case False
  then have "r1 = (Inr None, w)" "r2 = (Inr None, w)"
    by (simp_all add: r1_def r2_def oauth_callback_other_provider)
  with False show ?thesis by simp
next
  case True
  from oauth_callback_then_known [of acct tok em kw w] obtain u
    where known: "find (\<lambda>u. google_id u = Some acct) (users (snd r1)) = Some u"
      and ret: "fst r1 = Inr (Some u) \<or> (\<exists>e. fst r1 = Inl e)"
    unfolding r1_def True by blast
  have second: "r2 = (Inr (Some u), snd r1)"
    unfolding r2_def True by (rule oauth_callback_known_account [OF known])
  have a: "users (snd r2) = users (snd r1)"
    by (simp add: second)
  have b: "\<forall>u1. fst r1 = Inr (Some u1) \<longrightarrow>
      fst r2 = Inr (Some u1) \<and> uid u1 \<in> set (map uid (users (snd r2)))"
    using ret find_SomeD [OF known] by (auto simp: second)
  have c: "fault_of PrefsFind w = None \<and> fault_of PrefsInsert w = None \<longrightarrow>
      (\<exists>u1. fst r1 = Inr (Some u1))"
  proof (cases "find (\<lambda>u. google_id u = Some acct) (users w)")
    case (Some user)
    then show ?thesis by (simp add: r1_def True oauth_callback_known_account)
  next
    case None
    show ?thesis
    proof (cases "find (\<lambda>u. email u = em) (users w)")
      case (Some old)
      then show ?thesis by (simp add: r1_def True oauth_callback_link [OF None])
    next
      case nomail: None
      from oauth_callback_create [OF None nomail, of tok kw] show ?thesis
        by (auto simp: r1_def True)
    qed
  qed
  have d: "length (users (snd r1)) = length (users w)
        \<and> (\<exists>u \<in> set (users (snd r1)). fst r1 = Inr (Some u) \<and> email u = em
              \<and> google_id u = Some acct \<and> uid u \<in> set (map uid (users w)))"
    if h: "(\<forall>u \<in> set (users w). google_id u \<noteq> Some acct)
        \<and> (\<exists>u \<in> set (users w). email u = em)"
  proof -
    from h have g: "find (\<lambda>u. google_id u = Some acct) (users w) = None"
      by (simp add: find_None_iff)
    from h obtain old where f: "find (\<lambda>u. email u = em) (users w) = Some old"
      using find_ex_Some [of "users w" "\<lambda>u. email u = em"] by blast
    from find_SomeD [OF f] have old: "old \<in> set (users w)" "email old = em" by simp_all
    have r: "r1 = (Inr (Some (linked old acct kw w)),
        w\<lparr>users := upsert_user (linked old acct kw w) (users w)\<rparr>)"
      unfolding r1_def True by (rule oauth_callback_link [OF g f])
    have "length (upsert_user (linked old acct kw w) (users w)) = length (users w)"
      using old(1) by (intro upsert_user_length) (simp add: linked_def)
    moreover have "uid (linked old acct kw w) \<in> set (map uid (users w))"
      using old(1) by (simp add: linked_def)
    moreover have "email (linked old acct kw w) = em"
      "google_id (linked old acct kw w) = Some acct"
      using old(2) by (simp_all add: linked_def)
    ultimately show ?thesis
      using upsert_user_mem [of "linked old acct kw w" "users w"] by (simp add: r)
  qed
  from a b c d True show ?thesis by blast
qed

text \<open>
  In \<open>world_accounts\<close>, two sign-ins with the new account g-1 and the email a@x.com of the
  password account both return user 1 and leave two users; two sign-ins with the new
  account g-9 and an unknown email both return user 100 and leave three users.
\<close>

theorem oauth_callback_twice_witness:
  "fault_of PrefsFind world_accounts = None \<and> fault_of PrefsInsert world_accounts = None
   \<and> map_sum id (map_option uid)
        (fst (oauth_callback ''google'' ''tok'' ''g-1'' ''a@x.com'' []
           (snd (oauth_callback ''google'' ''tok'' ''g-1'' ''a@x.com'' [] world_accounts))))
       = Inr (Some 1)
   \<and> map uid (users (snd (oauth_callback ''google'' ''tok'' ''g-1'' ''a@x.com'' []
           (snd (oauth_callback ''google'' ''tok'' ''g-1'' ''a@x.com'' [] world_accounts)))))
       = [1, 2]
   \<and> map_sum id (map_option uid)
        (fst (oauth_callback ''google'' ''tok'' ''g-9'' ''new@x.com'' []
           (snd (oauth_callback ''google'' ''tok'' ''g-9'' ''new@x.com'' [] world_accounts))))
       = Inr (Some 100)
   \<and> map uid (users (snd (oauth_callback ''google'' ''tok'' ''g-9'' ''new@x.com'' []
           (snd (oauth_callback ''google'' ''tok'' ''g-9'' ''new@x.com'' [] world_accounts)))))
       = [1, 2, 100]"
  using oauth_callback_twice [of "''google''" "''tok''" "''g-1''" "''a@x.com''" "[]"
          world_accounts]
        oauth_callback_twice [of "''google''" "''tok''" "''g-9''" "''new@x.com''" "[]"
          world_accounts]
  by (simp add: Let_def oauth_callback_def world_accounts_def world0_def google_user_def
        mk_user_def UserDB_save_def UserDB_insert_def new_oid_def utcnow_def
        create_user_preferences_def UserPreferences_find_one_def
        UserPreferences_default_def UserPreferences_insert_def fault_of_def)

text \<open>
  The claim as stated fails for the provider \<open>github\<close>, where both calls return no user
  at all, and in \<open>world_prefs_down\<close>, where the first sign-in of a new account raises and
  only the second returns user 100.
\<close>

theorem oauth_callback_twice_counterexample:
  "fst (oauth_callback ''github'' ''tok'' ''g-9'' ''new@x.com'' [] world_accounts) = Inr None
   \<and> fst (oauth_callback ''github'' ''tok'' ''g-9'' ''new@x.com'' []
        (snd (oauth_callback ''github'' ''tok'' ''g-9'' ''new@x.com'' [] world_accounts)))
       = Inr None
   \<and> fst (oauth_callback ''google'' ''tok'' ''g-9'' ''new@x.com'' [] world_prefs_down)
       = Inl (Exception ''preferences unavailable'')
   \<and> map_sum id (map_option uid)
        (fst (oauth_callback ''google'' ''tok'' ''g-9'' ''new@x.com'' []
           (snd (oauth_callback ''google'' ''tok'' ''g-9'' ''new@x.com'' []
              world_prefs_down)))) = Inr (Some 100)"
  by (simp add: Let_def oauth_callback_def world_accounts_def world_prefs_down_def world0_def
        google_user_def mk_user_def UserDB_save_def UserDB_insert_def new_oid_def utcnow_def
        create_user_preferences_def UserPreferences_find_one_def
        UserPreferences_default_def UserPreferences_insert_def fault_of_def)

section \<open>One preferences record per user\<close>

















section \<open>Registering the same email twice\<close>









section \<open>Token lifetime\<close>



end
